theory Spec2Isabelle
  imports Complex_Main "HOL-Library.Multiset"
begin

section \<open>Values of a parsed request\<close>

text \<open>
  The handlers of \<^verbatim>\<open>server.js\<close> read the fields of a JSON body and test them with
  \<^verbatim>\<open>!x\<close> and \<^verbatim>\<open>x === undefined\<close>. A field is therefore a JavaScript value: a key that is
  missing from the body reads as \<^verbatim>\<open>undefined\<close>. The model covers the scalar values of
  JSON; numbers are real numbers (no NaN and no infinity can come out of a JSON body).
  Path parameters and query parameters are strings.
\<close>

datatype js_value = JUndefined | JNull | JBool bool | JNum real | JStr string

fun truthy :: "js_value \<Rightarrow> bool" where
  "truthy JUndefined = False"
| "truthy JNull = False"
| "truthy (JBool b) = b"
| "truthy (JNum r) = (r \<noteq> 0)"
| "truthy (JStr s) = (s \<noteq> [])"

section \<open>The storage layer\<close>

text \<open>
  Four tables, each a list of rows in insertion order. Times are ticks of the database
  clock. The three actuator columns hold numbers, read back with \<^verbatim>\<open>!!\<close>. The column
  \<^verbatim>\<open>ultima_actualizacion\<close> is not written by the insert of provisioning: \<open>None\<close> stands
  for whatever default the table gives it.
\<close>

type_synonym timestamp = nat

record invernadero_row =
  i_id_invernadero :: int
  nombre_ubicacion :: string
  token_dispositivo :: string
  ultima_conexion :: timestamp

record estado_control_row =
  e_id_invernadero :: int
  luces_estado :: int
  riego_estado :: int
  ventilacion_estado :: int
  ultima_actualizacion :: "timestamp option"

record usuario_invernadero_row =
  u_id_usuario :: int
  u_id_invernadero :: int
  rol :: string

record registro_sensores_row =
  r_id_invernadero :: int
  fecha_hora :: timestamp
  temp_ambiente :: real
  humedad_ambiente :: real
  humedad_suelo :: real

text \<open>
  \<open>auto_increment\<close> is the counter behind \<^verbatim>\<open>invResult.insertId\<close>: the id the next insert
  into \<^verbatim>\<open>invernadero\<close> receives.
\<close>

record db =
  invernadero :: "invernadero_row list"
  estado_control :: "estado_control_row list"
  usuario_invernadero :: "usuario_invernadero_row list"
  registro_sensores :: "registro_sensores_row list"
  auto_increment :: int

text \<open>
  The table declarations are not part of the repository. How a bound JavaScript value is
  converted to the type of the column it meets is therefore a parameter of every handler:
  \<open>int_col\<close> for the integer columns (ids and actuator flags), \<open>text_col\<close> for the text
  columns, \<open>dec_col\<close> for the three measurements (after JavaScript's \<^verbatim>\<open>Number\<close>). A
  comparison \<^verbatim>\<open>column = ?\<close> holds when the converted parameter equals the stored value.
\<close>

record schema =
  int_col :: "js_value \<Rightarrow> int"
  text_col :: "js_value \<Rightarrow> string"
  dec_col :: "js_value \<Rightarrow> real"

text \<open>
  Every call to the storage layer may throw. The environment of a request says, for each
  call site, whether that call throws (and what), and what \<^verbatim>\<open>NOW()\<close> is when the
  statement of that call site runs. \<^verbatim>\<open>rollback\<close> and \<^verbatim>\<open>release\<close> are taken not to throw.
\<close>

datatype call =
    GetConnection | BeginTransaction | Commit | Rollback | Release
  | SelectInvernaderoByToken | InsertInvernadero | InsertEstadoControl
  | InsertUsuarioInvernadero | SelectInvernaderosByUser
  | InsertRegistro | UpdateUltimaConexion | SelectHistorico
  | SelectEstadoControl | UpdateEstadoControl

datatype db_error = ER_DUP_ENTRY | ER_PARSE_ERROR | ER_OTHER

record env =
  throws :: "call \<Rightarrow> db_error option"
  NOW :: "call \<Rightarrow> timestamp"

text \<open>A response: the status code and what the JSON body carries besides a fixed text.\<close>

datatype payload =
    Mensaje
  | InvernaderoId int
  | Invernaderos "invernadero_row list"
  | Registros "(timestamp \<times> real \<times> real \<times> real) list"
  | Estado bool bool bool

record response =
  status :: nat
  body :: payload

subsection \<open>The statements\<close>

definition select_invernadero_by_token :: "string \<Rightarrow> db \<Rightarrow> invernadero_row list" where
  "select_invernadero_by_token tok d = filter (\<lambda>r. token_dispositivo r = tok) (invernadero d)"

definition insert_invernadero :: "string \<Rightarrow> string \<Rightarrow> timestamp \<Rightarrow> db \<Rightarrow> db" where
  "insert_invernadero ubic tok t d =
     d\<lparr>invernadero := invernadero d @
          [\<lparr>i_id_invernadero = auto_increment d, nombre_ubicacion = ubic,
            token_dispositivo = tok, ultima_conexion = t\<rparr>],
       auto_increment := auto_increment d + 1\<rparr>"

definition insert_estado_control :: "int \<Rightarrow> db \<Rightarrow> db" where
  "insert_estado_control i d =
     d\<lparr>estado_control := estado_control d @
          [\<lparr>e_id_invernadero = i, luces_estado = 0, riego_estado = 0,
            ventilacion_estado = 0, ultima_actualizacion = None\<rparr>]\<rparr>"

definition insert_usuario_invernadero :: "int \<Rightarrow> int \<Rightarrow> string \<Rightarrow> db \<Rightarrow> db" where
  "insert_usuario_invernadero u i r d =
     d\<lparr>usuario_invernadero := usuario_invernadero d @
          [\<lparr>u_id_usuario = u, u_id_invernadero = i, rol = r\<rparr>]\<rparr>"

text \<open>
  A rollback gives back the tables as they were when the transaction began. The
  auto-increment counter is not transactional: an id handed out stays handed out.
\<close>

definition rollback :: "db \<Rightarrow> db \<Rightarrow> db" where
  "rollback before work = before\<lparr>auto_increment := auto_increment work\<rparr>"

section \<open>POST /api/invernaderos/crear\<close>

record crear_body =
  userId :: js_value
  nombreUbicacion :: js_value
  tokenDispositivo :: js_value

text \<open>
  The body of the \<^verbatim>\<open>try\<close> block, from \<^verbatim>\<open>beginTransaction\<close> on. It ends by throwing
  (\<open>Inl\<close>), by the early return of the duplicate-token check after its own rollback
  (\<open>Inr None\<close>), or after the commit with the new id (\<open>Inr (Some newInvId)\<close>). The second
  component is the working state of the transaction, the third the calls made.
\<close>

definition crear_try ::
  "schema \<Rightarrow> env \<Rightarrow> db \<Rightarrow> crear_body \<Rightarrow> (db_error + int option) \<times> db \<times> call list" where
  "crear_try sc ev d b =
    (case throws ev BeginTransaction of
       Some e \<Rightarrow> (Inl e, d, [BeginTransaction])
     | None \<Rightarrow>
    (case throws ev SelectInvernaderoByToken of
       Some e \<Rightarrow> (Inl e, d, [BeginTransaction, SelectInvernaderoByToken])
     | None \<Rightarrow>
    if select_invernadero_by_token (text_col sc (tokenDispositivo b)) d \<noteq> []
    then (Inr None, d, [BeginTransaction, SelectInvernaderoByToken, Rollback])
    else
    (case throws ev InsertInvernadero of
       Some e \<Rightarrow> (Inl e, d, [BeginTransaction, SelectInvernaderoByToken, InsertInvernadero])
     | None \<Rightarrow>
    let newInvId = auto_increment d;
        d1 = insert_invernadero (text_col sc (nombreUbicacion b))
               (text_col sc (tokenDispositivo b)) (NOW ev InsertInvernadero) d
    in
    (case throws ev InsertEstadoControl of
       Some e \<Rightarrow> (Inl e, d1, [BeginTransaction, SelectInvernaderoByToken, InsertInvernadero,
                    InsertEstadoControl])
     | None \<Rightarrow>
    let d2 = insert_estado_control newInvId d1 in
    (case throws ev InsertUsuarioInvernadero of
       Some e \<Rightarrow> (Inl e, d2, [BeginTransaction, SelectInvernaderoByToken, InsertInvernadero,
                    InsertEstadoControl, InsertUsuarioInvernadero])
     | None \<Rightarrow>
    let d3 = insert_usuario_invernadero (int_col sc (userId b)) newInvId ''admin'' d2 in
    (case throws ev Commit of
       Some e \<Rightarrow> (Inl e, d3, [BeginTransaction, SelectInvernaderoByToken, InsertInvernadero,
                    InsertEstadoControl, InsertUsuarioInvernadero, Commit])
     | None \<Rightarrow> (Inr (Some newInvId), d3,
                  [BeginTransaction, SelectInvernaderoByToken, InsertInvernadero,
                   InsertEstadoControl, InsertUsuarioInvernadero, Commit])))))))"

text \<open>
  The handler: the truthiness check, \<^verbatim>\<open>getConnection\<close> (when it throws, \<^verbatim>\<open>connection\<close> is
  still undefined and neither the rollback of \<^verbatim>\<open>catch\<close> nor the release of \<^verbatim>\<open>finally\<close>
  runs), then the \<^verbatim>\<open>try\<close> block with its \<^verbatim>\<open>catch\<close> and \<^verbatim>\<open>finally\<close>. The result is the
  response, the committed state and the storage calls in the order they were made.
\<close>

definition crear :: "schema \<Rightarrow> env \<Rightarrow> db \<Rightarrow> crear_body \<Rightarrow> response \<times> db \<times> call list" where
  "crear sc ev d b =
    (if \<not> truthy (userId b) \<or> \<not> truthy (nombreUbicacion b) \<or> \<not> truthy (tokenDispositivo b)
     then (\<lparr>status = 400, body = Mensaje\<rparr>, d, [])
     else
       (case throws ev GetConnection of
          Some e \<Rightarrow> (\<lparr>status = 500, body = Mensaje\<rparr>, d, [GetConnection])
        | None \<Rightarrow>
          (case crear_try sc ev d b of
             (Inl e, work, tr) \<Rightarrow>
               (\<lparr>status = 500, body = Mensaje\<rparr>, rollback d work,
                GetConnection # tr @ [Rollback, Release])
           | (Inr None, work, tr) \<Rightarrow>
               (\<lparr>status = 409, body = Mensaje\<rparr>, rollback d work,
                GetConnection # tr @ [Release])
           | (Inr (Some newInvId), work, tr) \<Rightarrow>
               (\<lparr>status = 201, body = InvernaderoId newInvId\<rparr>, work,
                GetConnection # tr @ [Release]))))"

section \<open>GET /api/invernaderos/user/:userId\<close>

text \<open>
  The join of \<^verbatim>\<open>invernadero\<close> with \<^verbatim>\<open>usuario_invernadero\<close> on the device id, restricted to
  the rows of one user, ordered by device id.
\<close>

definition select_invernaderos_by_user :: "int \<Rightarrow> db \<Rightarrow> invernadero_row list" where
  "select_invernaderos_by_user u d =
     sort_key i_id_invernadero
       [I. I \<leftarrow> invernadero d, UI \<leftarrow> usuario_invernadero d,
           i_id_invernadero I = u_id_invernadero UI \<and> u_id_usuario UI = u]"

definition listar :: "schema \<Rightarrow> env \<Rightarrow> db \<Rightarrow> string \<Rightarrow> response \<times> db \<times> call list" where
  "listar sc ev d uid =
    (if uid = [] then (\<lparr>status = 400, body = Mensaje\<rparr>, d, [])
     else
       (case throws ev SelectInvernaderosByUser of
          Some e \<Rightarrow> (\<lparr>status = 500, body = Mensaje\<rparr>, d, [SelectInvernaderosByUser])
        | None \<Rightarrow>
            (\<lparr>status = 200,
              body = Invernaderos (select_invernaderos_by_user (int_col sc (JStr uid)) d)\<rparr>,
             d, [SelectInvernaderosByUser])))"

section \<open>POST /api/data/ingresar\<close>





section \<open>GET /api/data/historico/:id_inv\<close>

text \<open>
  JavaScript's \<^verbatim>\<open>parseInt\<close> with no radix, on a string of ASCII characters: leading white
  space is skipped, then a sign, then the prefix \<^verbatim>\<open>0x\<close> or \<^verbatim>\<open>0X\<close> selects radix 16; the
  result is the value of the longest run of digits of the radix, and NaN (\<open>None\<close>) when
  that run is empty. The value is exact here; JavaScript's is exact up to \<open>2 ^ 53\<close>.
\<close>

definition white_space :: "char \<Rightarrow> bool" where
  "white_space c = (c \<in> set [CHR 0x09, CHR 0x0A, CHR 0x0B, CHR 0x0C, CHR 0x0D, CHR '' ''])"

definition digit_value :: "char \<Rightarrow> nat option" where
  "digit_value c =
     (let n = (of_char c :: nat) in
      if 48 \<le> n \<and> n \<le> 57 then Some (n - 48)
      else if 97 \<le> n \<and> n \<le> 122 then Some (n - 87)
      else if 65 \<le> n \<and> n \<le> 90 then Some (n - 55)
      else None)"

definition radix_digit :: "nat \<Rightarrow> char \<Rightarrow> bool" where
  "radix_digit R c = (case digit_value c of Some v \<Rightarrow> v < R | None \<Rightarrow> False)"

definition math_int :: "nat \<Rightarrow> string \<Rightarrow> nat" where
  "math_int R Z = foldl (\<lambda>a c. a * R + (case digit_value c of Some v \<Rightarrow> v | None \<Rightarrow> 0)) 0 Z"

definition parseInt :: "string \<Rightarrow> int option" where
  "parseInt s =
     (let s1 = dropWhile white_space s;
          neg = (take 1 s1 = ''-'');
          s2 = (if take 1 s1 = ''+'' \<or> take 1 s1 = ''-'' then drop 1 s1 else s1);
          hex = (take 2 s2 = ''0x'' \<or> take 2 s2 = ''0X'');
          R = (if hex then 16 else 10);
          s3 = (if hex then drop 2 s2 else s2);
          Z = takeWhile (radix_digit R) s3
      in if Z = [] then None
         else Some ((if neg then - 1 else 1) * int (math_int R Z)))"



text \<open>
  The limit is written into the statement as it is; the server rejects a statement whose
  \<^verbatim>\<open>LIMIT\<close> is NaN or negative, and the handler answers 500.
\<close>




section \<open>GET /api/control/estado/:token\<close>

definition select_estado_control :: "int \<Rightarrow> db \<Rightarrow> estado_control_row list" where
  "select_estado_control i d = filter (\<lambda>r. e_id_invernadero r = i) (estado_control d)"

definition control_estado :: "schema \<Rightarrow> env \<Rightarrow> db \<Rightarrow> string \<Rightarrow> response \<times> db \<times> call list" where
  "control_estado sc ev d tok =
    (case throws ev SelectInvernaderoByToken of
       Some e \<Rightarrow> (\<lparr>status = 500, body = Mensaje\<rparr>, d, [SelectInvernaderoByToken])
     | None \<Rightarrow>
    (case select_invernadero_by_token (text_col sc (JStr tok)) d of
       [] \<Rightarrow> (\<lparr>status = 401, body = Mensaje\<rparr>, d, [SelectInvernaderoByToken])
     | inv0 # _ \<Rightarrow>
    (case throws ev SelectEstadoControl of
       Some e \<Rightarrow> (\<lparr>status = 500, body = Mensaje\<rparr>, d,
                  [SelectInvernaderoByToken, SelectEstadoControl])
     | None \<Rightarrow>
    (case select_estado_control (i_id_invernadero inv0) d of
       [] \<Rightarrow> (\<lparr>status = 404, body = Mensaje\<rparr>, d,
               [SelectInvernaderoByToken, SelectEstadoControl])
     | e0 # _ \<Rightarrow>
         (\<lparr>status = 200,
           body = Estado (luces_estado e0 \<noteq> 0) (riego_estado e0 \<noteq> 0)
                    (ventilacion_estado e0 \<noteq> 0)\<rparr>,
          d, [SelectInvernaderoByToken, SelectEstadoControl])))))"

section \<open>PUT /api/control/actualizar/:id_inv\<close>

record actualizar_body =
  actuador :: js_value
  estado :: js_value

text \<open>
  The handler looks the actuator up in an object literal with three own properties. A
  string that names none of them, but names a member the literal inherits from
  \<^verbatim>\<open>Object.prototype\<close>, reads as that member, which is truthy and is not a column.
\<close>

datatype columna = Luces_estado | Riego_estado | Ventilacion_estado

datatype campo = Columna columna | Heredado | NoDefinido

definition object_prototype :: "string list" where
  "object_prototype =
     [''constructor'', ''__defineGetter__'', ''__defineSetter__'', ''hasOwnProperty'',
      ''__lookupGetter__'', ''__lookupSetter__'', ''isPrototypeOf'',
      ''propertyIsEnumerable'', ''toString'', ''valueOf'', ''__proto__'',
      ''toLocaleString'']"

fun actuadorCampo :: "js_value \<Rightarrow> campo" where
  "actuadorCampo (JStr s) =
     (if s = ''luces'' then Columna Luces_estado
      else if s = ''riego'' then Columna Riego_estado
      else if s = ''ventilacion'' then Columna Ventilacion_estado
      else if s \<in> set object_prototype then Heredado
      else NoDefinido)"
| "actuadorCampo v = NoDefinido"

fun set_columna :: "columna \<Rightarrow> int \<Rightarrow> estado_control_row \<Rightarrow> estado_control_row" where
  "set_columna Luces_estado v r = r\<lparr>luces_estado := v\<rparr>"
| "set_columna Riego_estado v r = r\<lparr>riego_estado := v\<rparr>"
| "set_columna Ventilacion_estado v r = r\<lparr>ventilacion_estado := v\<rparr>"

definition update_estado_control :: "columna \<Rightarrow> int \<Rightarrow> timestamp \<Rightarrow> int \<Rightarrow> db \<Rightarrow> db" where
  "update_estado_control c v t i d =
     d\<lparr>estado_control :=
          map (\<lambda>r. if e_id_invernadero r = i
                   then (set_columna c v r)\<lparr>ultima_actualizacion := Some t\<rparr> else r)
            (estado_control d)\<rparr>"

text \<open>
  With an inherited member in the place of the column name the statement is not SQL, and
  the server rejects it.
\<close>

definition control_actualizar ::
  "schema \<Rightarrow> env \<Rightarrow> db \<Rightarrow> string \<Rightarrow> actualizar_body \<Rightarrow> response \<times> db \<times> call list" where
  "control_actualizar sc ev d id_inv b =
    (if \<not> truthy (actuador b) \<or> estado b = JUndefined
     then (\<lparr>status = 400, body = Mensaje\<rparr>, d, [])
     else
       (case actuadorCampo (actuador b) of
          NoDefinido \<Rightarrow> (\<lparr>status = 400, body = Mensaje\<rparr>, d, [])
        | Heredado \<Rightarrow> (\<lparr>status = 500, body = Mensaje\<rparr>, d, [UpdateEstadoControl])
        | Columna c \<Rightarrow>
            (case throws ev UpdateEstadoControl of
               Some e \<Rightarrow> (\<lparr>status = 500, body = Mensaje\<rparr>, d, [UpdateEstadoControl])
             | None \<Rightarrow>
                 (\<lparr>status = 200, body = Mensaje\<rparr>,
                  update_estado_control c (int_col sc (estado b))
                    (NOW ev UpdateEstadoControl) (int_col sc (JStr id_inv)) d,
                  [UpdateEstadoControl]))))"

section \<open>Sample data\<close>

text \<open>
  A schema, environments and states on which the handlers are run below. The sample
  schema reads a number or a decimal string as an integer, a string as itself.
\<close>

definition sample_int :: "js_value \<Rightarrow> int" where
  "sample_int v =
     (case v of
        JNum r \<Rightarrow> \<lfloor>r\<rfloor>
      | JStr s \<Rightarrow> (case parseInt s of Some n \<Rightarrow> n | None \<Rightarrow> 0)
      | JBool b \<Rightarrow> (if b then 1 else 0)
      | _ \<Rightarrow> 0)"

definition sample_text :: "js_value \<Rightarrow> string" where
  "sample_text v = (case v of JStr s \<Rightarrow> s | _ \<Rightarrow> [])"

definition sample_dec :: "js_value \<Rightarrow> real" where
  "sample_dec v = (case v of JNum r \<Rightarrow> r | _ \<Rightarrow> 0)"

definition sample_schema :: schema where
  "sample_schema = \<lparr>int_col = sample_int, text_col = sample_text, dec_col = sample_dec\<rparr>"

definition all_ok :: "call \<Rightarrow> db_error option" where
  "all_ok c = None"

definition fail_at :: "call \<Rightarrow> db_error \<Rightarrow> call \<Rightarrow> db_error option" where
  "fail_at c e c' = (if c' = c then Some e else None)"

definition clock :: "call \<Rightarrow> timestamp" where
  "clock c = 100"

definition empty_db :: db where
  "empty_db = \<lparr>invernadero = [], estado_control = [], usuario_invernadero = [],
               registro_sensores = [], auto_increment = 1\<rparr>"

definition body_abc :: crear_body where
  "body_abc = \<lparr>userId = JNum 7, nombreUbicacion = JStr ''Greenhouse A'',
              tokenDispositivo = JStr ''ABC''\<rparr>"

text \<open>The state after user 7 has provisioned the device with token ABC at tick 100.\<close>

definition db_abc :: db where
  "db_abc =
     \<lparr>invernadero = [\<lparr>i_id_invernadero = 1, nombre_ubicacion = ''Greenhouse A'',
                       token_dispositivo = ''ABC'', ultima_conexion = 100\<rparr>],
      estado_control = [\<lparr>e_id_invernadero = 1, luces_estado = 0, riego_estado = 0,
                          ventilacion_estado = 0, ultima_actualizacion = None\<rparr>],
      usuario_invernadero = [\<lparr>u_id_usuario = 7, u_id_invernadero = 1, rol = ''admin''\<rparr>],
      registro_sensores = [],
      auto_increment = 2\<rparr>"

definition body_xyz :: crear_body where
  "body_xyz = \<lparr>userId = JNum 7, nombreUbicacion = JStr ''Greenhouse B'',
              tokenDispositivo = JStr ''XYZ''\<rparr>"

definition env_ok :: env where
  "env_ok = \<lparr>throws = all_ok, NOW = clock\<rparr>"

definition env_fail :: "call \<Rightarrow> db_error \<Rightarrow> env" where
  "env_fail c e = \<lparr>throws = fail_at c e, NOW = clock\<rparr>"

text \<open>
  Ids are fresh when every id in use is below the counter; provisioning from the empty
  database keeps it so.
\<close>

definition fresh_ids :: "db \<Rightarrow> bool" where
  "fresh_ids d =
     (list_all (\<lambda>r. i_id_invernadero r < auto_increment d) (invernadero d) \<and>
      list_all (\<lambda>r. e_id_invernadero r < auto_increment d) (estado_control d))"

definition clock_later :: "call \<Rightarrow> timestamp" where
  "clock_later c = 250"

definition env_later :: env where
  "env_later = \<lparr>throws = all_ok, NOW = clock_later\<rparr>"


definition body_riego :: actualizar_body where
  "body_riego = \<lparr>actuador = JStr ''riego'', estado = JBool True\<rparr>"


definition lectura_1 :: registro_sensores_row where
  "lectura_1 = \<lparr>r_id_invernadero = 1, fecha_hora = 250, temp_ambiente = 24.5,
               humedad_ambiente = 60, humedad_suelo = 40\<rparr>"

definition lectura_2 :: registro_sensores_row where
  "lectura_2 = \<lparr>r_id_invernadero = 1, fecha_hora = 300, temp_ambiente = 25,
               humedad_ambiente = 58, humedad_suelo = 39\<rparr>"

definition lectura_3 :: registro_sensores_row where
  "lectura_3 = \<lparr>r_id_invernadero = 2, fecha_hora = 310, temp_ambiente = 19,
               humedad_ambiente = 70, humedad_suelo = 55\<rparr>"

text \<open>
  A state with two devices: user 7 owns both, user 8 owns the second; device 2 has no
  control-state row; three readings are stored.
\<close>

definition db_two :: db where
  "db_two =
     \<lparr>invernadero = [\<lparr>i_id_invernadero = 2, nombre_ubicacion = ''Greenhouse B'',
                       token_dispositivo = ''XYZ'', ultima_conexion = 310\<rparr>,
                     \<lparr>i_id_invernadero = 1, nombre_ubicacion = ''Greenhouse A'',
                       token_dispositivo = ''ABC'', ultima_conexion = 300\<rparr>],
      estado_control = [\<lparr>e_id_invernadero = 1, luces_estado = 0, riego_estado = 1,
                          ventilacion_estado = 0, ultima_actualizacion = Some 250\<rparr>],
      usuario_invernadero = [\<lparr>u_id_usuario = 7, u_id_invernadero = 2, rol = ''admin''\<rparr>,
                             \<lparr>u_id_usuario = 8, u_id_invernadero = 2, rol = ''admin''\<rparr>,
                             \<lparr>u_id_usuario = 7, u_id_invernadero = 1, rol = ''admin''\<rparr>],
      registro_sensores = [lectura_1, lectura_2, lectura_3],
      auto_increment = 3\<rparr>"




section \<open>Provisioning\<close>

text \<open>
  C1. A provisioning call that does not answer 201, whatever step it failed at (the
  duplicate-token check, one of the three inserts, the commit, or before), leaves the
  tables of devices, control states and ownerships (and of readings) exactly as they
  were; and once the transaction had begun, a rollback was issued.
\<close>

theorem crear_failure_leaves_no_row:
  assumes "crear sc ev d b = (r, d', tr)" and "status r \<noteq> 201"
  shows "invernadero d' = invernadero d \<and> estado_control d' = estado_control d \<and>
         usuario_invernadero d' = usuario_invernadero d \<and>
         registro_sensores d' = registro_sensores d \<and>
         (BeginTransaction \<in> set tr \<longrightarrow> Rollback \<in> set tr)"
  using assms
  by (auto simp: crear_def crear_try_def rollback_def insert_invernadero_def
        insert_estado_control_def insert_usuario_invernadero_def Let_def
           split: option.splits if_splits)

text \<open>
  The ownership insert fails on a database that already holds one device: the device and
  control-state rows of the attempt are gone, only the id counter has moved.
\<close>

theorem crear_failure_leaves_no_row_witness:
  "crear sample_schema (env_fail InsertUsuarioInvernadero ER_OTHER) db_abc body_xyz =
    (\<lparr>status = 500, body = Mensaje\<rparr>, db_abc\<lparr>auto_increment := 3\<rparr>,
     [GetConnection, BeginTransaction, SelectInvernaderoByToken, InsertInvernadero,
      InsertEstadoControl, InsertUsuarioInvernadero, Rollback, Release])
   \<and> status \<lparr>status = 500, body = Mensaje\<rparr> \<noteq> 201
   \<and> invernadero (db_abc\<lparr>auto_increment := 3\<rparr>) = invernadero db_abc
   \<and> estado_control (db_abc\<lparr>auto_increment := 3\<rparr>) = estado_control db_abc
   \<and> usuario_invernadero (db_abc\<lparr>auto_increment := 3\<rparr>) = usuario_invernadero db_abc"
proof -
  have run: "crear sample_schema (env_fail InsertUsuarioInvernadero ER_OTHER) db_abc body_xyz =
    (\<lparr>status = 500, body = Mensaje\<rparr>, db_abc\<lparr>auto_increment := 3\<rparr>,
     [GetConnection, BeginTransaction, SelectInvernaderoByToken, InsertInvernadero,
      InsertEstadoControl, InsertUsuarioInvernadero, Rollback, Release])"
    by (simp add: crear_def crear_try_def rollback_def insert_invernadero_def
        insert_estado_control_def insert_usuario_invernadero_def Let_def
        select_invernadero_by_token_def sample_schema_def sample_int_def sample_text_def
        env_fail_def fail_at_def db_abc_def body_xyz_def)
  have st: "status \<lparr>status = 500, body = Mensaje\<rparr> \<noteq> 201" by simp
  from crear_failure_leaves_no_row [OF run st] run st show ?thesis by simp
qed

text \<open>
  C2, as stated, fails. The insert of the device row is rejected by the storage layer as
  a duplicate entry (a concurrent call registered the token after the lookup of this one):
  the \<^verbatim>\<open>catch\<close> block answers 500, not 409.
\<close>

theorem crear_dup_entry_counterexample:
  "throws (env_fail InsertInvernadero ER_DUP_ENTRY) InsertInvernadero = Some ER_DUP_ENTRY \<and>
   status (fst (crear sample_schema (env_fail InsertInvernadero ER_DUP_ENTRY) empty_db body_abc))
     = 500 \<and>
   status (fst (crear sample_schema (env_fail InsertInvernadero ER_DUP_ENTRY) empty_db body_abc))
     \<noteq> 409"
  by (simp add: crear_def crear_try_def rollback_def insert_invernadero_def
        insert_estado_control_def insert_usuario_invernadero_def Let_def
        select_invernadero_by_token_def sample_schema_def sample_int_def sample_text_def
        env_fail_def fail_at_def empty_db_def body_abc_def)

text \<open>
  C2, amended. A provisioning call answers 409 exactly when its own lookup finds the token
  already registered (its inputs being truthy and no call before the lookup, nor the
  lookup, having thrown). When the lookup finds nothing and the storage layer then rejects
  the insert of the device row, for a duplicate entry as for any other reason, the caller
  receives 500, and no row of the attempt is kept.
\<close>

theorem crear_conflict_only_from_lookup:
  "(status (fst (crear sc ev d b)) = 409 \<longleftrightarrow>
      truthy (userId b) \<and> truthy (nombreUbicacion b) \<and> truthy (tokenDispositivo b) \<and>
      throws ev GetConnection = None \<and> throws ev BeginTransaction = None \<and>
      throws ev SelectInvernaderoByToken = None \<and>
      (\<exists>r \<in> set (invernadero d). token_dispositivo r = text_col sc (tokenDispositivo b)))
   \<and> (truthy (userId b) \<and> truthy (nombreUbicacion b) \<and> truthy (tokenDispositivo b) \<and>
      throws ev GetConnection = None \<and> throws ev BeginTransaction = None \<and>
      throws ev SelectInvernaderoByToken = None \<and>
      (\<forall>r \<in> set (invernadero d). token_dispositivo r \<noteq> text_col sc (tokenDispositivo b)) \<and>
      throws ev InsertInvernadero = Some e
      \<longrightarrow> status (fst (crear sc ev d b)) = 500 \<and>
          invernadero (fst (snd (crear sc ev d b))) = invernadero d \<and>
          estado_control (fst (snd (crear sc ev d b))) = estado_control d \<and>
          usuario_invernadero (fst (snd (crear sc ev d b))) = usuario_invernadero d)"
  by (auto simp: crear_def crear_try_def rollback_def insert_invernadero_def
        insert_estado_control_def insert_usuario_invernadero_def Let_def
        select_invernadero_by_token_def filter_empty_conv
           split: option.splits if_splits)

text \<open>
  Both halves at work: token ABC is provisioned a second time (409), and the insert of a
  new token is rejected as a duplicate entry (500).
\<close>

theorem crear_conflict_only_from_lookup_witness:
  "truthy (userId body_abc) \<and> truthy (nombreUbicacion body_abc) \<and>
   truthy (tokenDispositivo body_abc) \<and>
   throws env_ok GetConnection = None \<and> throws env_ok BeginTransaction = None \<and>
   throws env_ok SelectInvernaderoByToken = None \<and>
   (\<exists>r \<in> set (invernadero db_abc).
      token_dispositivo r = text_col sample_schema (tokenDispositivo body_abc)) \<and>
   status (fst (crear sample_schema env_ok db_abc body_abc)) = 409 \<and>
   throws (env_fail InsertInvernadero ER_DUP_ENTRY) GetConnection = None \<and>
   throws (env_fail InsertInvernadero ER_DUP_ENTRY) BeginTransaction = None \<and>
   throws (env_fail InsertInvernadero ER_DUP_ENTRY) SelectInvernaderoByToken = None \<and>
   \<not> (\<exists>r \<in> set (invernadero empty_db).
      token_dispositivo r = text_col sample_schema (tokenDispositivo body_abc)) \<and>
   throws (env_fail InsertInvernadero ER_DUP_ENTRY) InsertInvernadero = Some ER_DUP_ENTRY \<and>
   status (fst (crear sample_schema (env_fail InsertInvernadero ER_DUP_ENTRY) empty_db body_abc))
     = 500 \<and>
   invernadero
     (fst (snd (crear sample_schema (env_fail InsertInvernadero ER_DUP_ENTRY) empty_db body_abc)))
     = invernadero empty_db"
proof -
  have hyp1: "truthy (userId body_abc) \<and> truthy (nombreUbicacion body_abc) \<and>
     truthy (tokenDispositivo body_abc) \<and>
     throws env_ok GetConnection = None \<and> throws env_ok BeginTransaction = None \<and>
     throws env_ok SelectInvernaderoByToken = None \<and>
     (\<exists>r \<in> set (invernadero db_abc).
        token_dispositivo r = text_col sample_schema (tokenDispositivo body_abc))"
    by (simp add: sample_schema_def sample_int_def sample_text_def env_ok_def all_ok_def db_abc_def body_abc_def)
  have hyp2: "truthy (userId body_abc) \<and> truthy (nombreUbicacion body_abc) \<and>
     truthy (tokenDispositivo body_abc) \<and>
     throws (env_fail InsertInvernadero ER_DUP_ENTRY) GetConnection = None \<and>
     throws (env_fail InsertInvernadero ER_DUP_ENTRY) BeginTransaction = None \<and>
     throws (env_fail InsertInvernadero ER_DUP_ENTRY) SelectInvernaderoByToken = None \<and>
     (\<forall>r \<in> set (invernadero empty_db).
        token_dispositivo r \<noteq> text_col sample_schema (tokenDispositivo body_abc)) \<and>
     throws (env_fail InsertInvernadero ER_DUP_ENTRY) InsertInvernadero = Some ER_DUP_ENTRY"
    by (simp add: sample_schema_def sample_int_def sample_text_def env_fail_def fail_at_def empty_db_def body_abc_def)
  from crear_conflict_only_from_lookup [of sample_schema env_ok db_abc body_abc] hyp1
  have c1: "status (fst (crear sample_schema env_ok db_abc body_abc)) = 409"
    by blast
  from crear_conflict_only_from_lookup
         [of sample_schema "env_fail InsertInvernadero ER_DUP_ENTRY" empty_db body_abc
             ER_DUP_ENTRY] hyp2
  have c2: "status (fst (crear sample_schema (env_fail InsertInvernadero ER_DUP_ENTRY) empty_db
                 body_abc)) = 500 \<and>
    invernadero (fst (snd (crear sample_schema (env_fail InsertInvernadero ER_DUP_ENTRY)
                 empty_db body_abc))) = invernadero empty_db"
    by blast
  from hyp1 hyp2 c1 c2 show ?thesis by blast
qed

lemma crear_success_state:
  assumes "crear sc ev d b = (r, d', tr)" and "status r = 201"
  shows "r = \<lparr>status = 201, body = InvernaderoId (auto_increment d)\<rparr> \<and>
    select_invernadero_by_token (text_col sc (tokenDispositivo b)) d = [] \<and>
    d' = d\<lparr>invernadero := invernadero d @
      [\<lparr>i_id_invernadero = auto_increment d, nombre_ubicacion = text_col sc (nombreUbicacion b),
        token_dispositivo = text_col sc (tokenDispositivo b),
        ultima_conexion = NOW ev InsertInvernadero\<rparr>],
      auto_increment := auto_increment d + 1,
      estado_control := estado_control d @
      [\<lparr>e_id_invernadero = auto_increment d, luces_estado = 0, riego_estado = 0,
        ventilacion_estado = 0, ultima_actualizacion = None\<rparr>],
      usuario_invernadero := usuario_invernadero d @
      [\<lparr>u_id_usuario = int_col sc (userId b), u_id_invernadero = auto_increment d,
        rol = ''admin''\<rparr>]\<rparr>"
  using assms
  by (auto simp: crear_def crear_try_def rollback_def insert_invernadero_def
        insert_estado_control_def insert_usuario_invernadero_def Let_def
           split: option.splits if_splits)

lemma fresh_ids_no_estado:
  "fresh_ids d \<Longrightarrow>
     filter (\<lambda>r. e_id_invernadero r = auto_increment d) (estado_control d) = []"
  by (auto simp: fresh_ids_def list_all_iff filter_empty_conv)

text \<open>Freshness of ids holds of the empty database and is kept by every provisioning call.\<close>

lemma fresh_ids_empty_db: "fresh_ids empty_db"
  by (simp add: fresh_ids_def empty_db_def)

lemma fresh_ids_mono:
  assumes "fresh_ids d" and "auto_increment d \<le> n"
  shows "list_all (\<lambda>r. i_id_invernadero r < n) (invernadero d) \<and>
         list_all (\<lambda>r. e_id_invernadero r < n) (estado_control d)"
  using assms by (fastforce simp: fresh_ids_def list_all_iff)

lemma crear_keeps_fresh_ids:
  assumes run: "crear sc ev d b = (r, d', tr)" and fr: "fresh_ids d"
  shows "fresh_ids d'"
proof (cases "status r = 201")
  case True
  note st = crear_success_state [OF run True]
  from fresh_ids_mono [OF fr, of "auto_increment d + 1"] st show ?thesis
    by (simp add: fresh_ids_def)
next
  case False
  have "invernadero d' = invernadero d \<and> estado_control d' = estado_control d \<and>
        auto_increment d \<le> auto_increment d'"
    using run False
    by (auto simp: crear_def crear_try_def rollback_def insert_invernadero_def
        insert_estado_control_def insert_usuario_invernadero_def Let_def
             split: option.splits if_splits)
  with fresh_ids_mono [OF fr, of "auto_increment d'"] show ?thesis
    by (simp add: fresh_ids_def)
qed

text \<open>
  C3. When provisioning answers 201, the id returned is the one the device row received;
  exactly one row was added to each of the three tables: the device row, a control-state
  row for that id with the three actuator columns 0, and the ownership row (requesting
  user, new device, admin). When the ids in use were fresh, fetching the control state
  by the token of the new device right afterwards answers the three flags false.
\<close>

theorem crear_success_creates_rows:
  assumes run: "crear sc ev d b = (r, d', tr)" and ok: "status r = 201"
  shows "body r = InvernaderoId (auto_increment d) \<and>
    invernadero d' = invernadero d @
      [\<lparr>i_id_invernadero = auto_increment d, nombre_ubicacion = text_col sc (nombreUbicacion b),
        token_dispositivo = text_col sc (tokenDispositivo b),
        ultima_conexion = NOW ev InsertInvernadero\<rparr>] \<and>
    estado_control d' = estado_control d @
      [\<lparr>e_id_invernadero = auto_increment d, luces_estado = 0, riego_estado = 0,
        ventilacion_estado = 0, ultima_actualizacion = None\<rparr>] \<and>
    usuario_invernadero d' = usuario_invernadero d @
      [\<lparr>u_id_usuario = int_col sc (userId b), u_id_invernadero = auto_increment d,
        rol = ''admin''\<rparr>] \<and>
    (fresh_ids d \<and> throws ev' SelectInvernaderoByToken = None \<and>
     throws ev' SelectEstadoControl = None \<and>
     text_col sc (JStr tok) = text_col sc (tokenDispositivo b) \<longrightarrow>
       fst (control_estado sc ev' d' tok) = \<lparr>status = 200, body = Estado False False False\<rparr>)"
proof -
  note st = crear_success_state [OF run ok]
  have rows: "body r = InvernaderoId (auto_increment d)"
    "invernadero d' = invernadero d @
      [\<lparr>i_id_invernadero = auto_increment d, nombre_ubicacion = text_col sc (nombreUbicacion b),
        token_dispositivo = text_col sc (tokenDispositivo b),
        ultima_conexion = NOW ev InsertInvernadero\<rparr>]"
    "estado_control d' = estado_control d @
      [\<lparr>e_id_invernadero = auto_increment d, luces_estado = 0, riego_estado = 0,
        ventilacion_estado = 0, ultima_actualizacion = None\<rparr>]"
    "usuario_invernadero d' = usuario_invernadero d @
      [\<lparr>u_id_usuario = int_col sc (userId b), u_id_invernadero = auto_increment d,
        rol = ''admin''\<rparr>]"
    using st by simp_all
  have fetch: "fst (control_estado sc ev' d' tok) =
      \<lparr>status = 200, body = Estado False False False\<rparr>"
    if fr: "fresh_ids d" and t1: "throws ev' SelectInvernaderoByToken = None"
      and t2: "throws ev' SelectEstadoControl = None"
      and tk: "text_col sc (JStr tok) = text_col sc (tokenDispositivo b)"
  proof -
    have absent: "filter (\<lambda>r. token_dispositivo r = text_col sc (tokenDispositivo b))
                    (invernadero d) = []"
      using st by (simp add: select_invernadero_by_token_def)
    have sel: "select_invernadero_by_token (text_col sc (JStr tok)) d' =
       [\<lparr>i_id_invernadero = auto_increment d,
         nombre_ubicacion = text_col sc (nombreUbicacion b),
         token_dispositivo = text_col sc (tokenDispositivo b),
         ultima_conexion = NOW ev InsertInvernadero\<rparr>]"
      using absent by (simp add: select_invernadero_by_token_def rows tk)
    have est: "select_estado_control (auto_increment d) d' =
       [\<lparr>e_id_invernadero = auto_increment d, luces_estado = 0, riego_estado = 0,
         ventilacion_estado = 0, ultima_actualizacion = None\<rparr>]"
      using fresh_ids_no_estado [OF fr] by (simp add: select_estado_control_def rows)
    show ?thesis
      by (simp add: control_estado_def t1 t2 sel est)
  qed
  from rows fetch show ?thesis by blast
qed

text \<open>
  User 7 provisions token ABC on the empty database: device 1 is created with its
  control state and its ownership, and the device then reads three false flags.
\<close>

theorem crear_success_creates_rows_witness:
  "crear sample_schema env_ok empty_db body_abc =
     (\<lparr>status = 201, body = InvernaderoId 1\<rparr>, db_abc,
      [GetConnection, BeginTransaction, SelectInvernaderoByToken, InsertInvernadero,
       InsertEstadoControl, InsertUsuarioInvernadero, Commit, Release]) \<and>
   estado_control db_abc = estado_control empty_db @
      [\<lparr>e_id_invernadero = 1, luces_estado = 0, riego_estado = 0,
        ventilacion_estado = 0, ultima_actualizacion = None\<rparr>] \<and>
   usuario_invernadero db_abc = usuario_invernadero empty_db @
      [\<lparr>u_id_usuario = 7, u_id_invernadero = 1, rol = ''admin''\<rparr>] \<and>
   fresh_ids empty_db \<and>
   fst (control_estado sample_schema env_ok db_abc ''ABC'') =
     \<lparr>status = 200, body = Estado False False False\<rparr>"
proof -
  have run: "crear sample_schema env_ok empty_db body_abc =
     (\<lparr>status = 201, body = InvernaderoId 1\<rparr>, db_abc,
      [GetConnection, BeginTransaction, SelectInvernaderoByToken, InsertInvernadero,
       InsertEstadoControl, InsertUsuarioInvernadero, Commit, Release])"
    by (simp add: crear_def crear_try_def rollback_def insert_invernadero_def
        insert_estado_control_def insert_usuario_invernadero_def Let_def
        select_invernadero_by_token_def sample_schema_def sample_int_def sample_text_def
        env_ok_def all_ok_def clock_def empty_db_def db_abc_def body_abc_def)
  have ok: "status \<lparr>status = 201, body = InvernaderoId 1\<rparr> = 201" by simp
  have side: "fresh_ids empty_db \<and> throws env_ok SelectInvernaderoByToken = None \<and>
     throws env_ok SelectEstadoControl = None \<and>
     text_col sample_schema (JStr ''ABC'') = text_col sample_schema (tokenDispositivo body_abc)"
    by (simp add: fresh_ids_def sample_schema_def sample_int_def sample_text_def env_ok_def all_ok_def
          empty_db_def body_abc_def)
  have vals: "auto_increment empty_db = 1" "int_col sample_schema (userId body_abc) = 7"
    by (simp_all add: sample_schema_def sample_int_def sample_text_def empty_db_def body_abc_def)
  from crear_success_creates_rows [OF run ok, of env_ok "''ABC''"] side run vals
  show ?thesis by simp
qed

text \<open>
  C10. Presence of the three inputs is judged by truthiness: a request whose user id is
  the number 0, or whose location label or device token is the empty string, is answered
  400 whatever the database and the environment are, with the state untouched and no call
  to the storage layer made.
\<close>

theorem crear_falsy_input_rejected:
  assumes "userId b = JNum 0 \<or> nombreUbicacion b = JStr [] \<or> tokenDispositivo b = JStr []"
  shows "crear sc ev d b = (\<lparr>status = 400, body = Mensaje\<rparr>, d, [])"
  using assms by (auto simp: crear_def)

theorem crear_falsy_input_rejected_witness:
  "userId (body_abc\<lparr>userId := JNum 0\<rparr>) = JNum 0 \<and>
   crear sample_schema env_ok db_abc (body_abc\<lparr>userId := JNum 0\<rparr>) =
     (\<lparr>status = 400, body = Mensaje\<rparr>, db_abc, [])"
proof -
  have h: "userId (body_abc\<lparr>userId := JNum 0\<rparr>) = JNum 0 \<or>
           nombreUbicacion (body_abc\<lparr>userId := JNum 0\<rparr>) = JStr [] \<or>
           tokenDispositivo (body_abc\<lparr>userId := JNum 0\<rparr>) = JStr []"
    by simp
  from crear_falsy_input_rejected [OF h, of sample_schema env_ok db_abc] show ?thesis
    by simp
qed

section \<open>Actuators\<close>



lemma update_no_match:
  assumes "\<forall>e \<in> set xs. e_id_invernadero e \<noteq> i"
  shows "map (\<lambda>r. if e_id_invernadero r = i
                 then (set_columna c v r)\<lparr>ultima_actualizacion := Some t\<rparr> else r) xs = xs"
  using assms by (induction xs) simp_all

lemma Columna_truthy: "actuadorCampo v = Columna c \<Longrightarrow> truthy v"
  by (cases v) (auto split: if_splits)




text \<open>
  C9. An actuator update that names one of the three actuators and carries a defined
  value, for a device id that no control-state row has, changes nothing in the state and
  answers the success confirmation (500 only when the storage call itself throws). And
  whatever the request is, the handler answers 200, 400 or 500: never 401, never 404.
\<close>

theorem control_actualizar_unknown_device:
  assumes col: "actuadorCampo (actuador b) = Columna c"
      and given: "estado b \<noteq> JUndefined"
      and none: "\<forall>e \<in> set (estado_control d). e_id_invernadero e \<noteq> int_col sc (JStr id_inv)"
  shows "control_actualizar sc ev d id_inv b =
           (\<lparr>status = (if throws ev UpdateEstadoControl = None then 200 else 500),
             body = Mensaje\<rparr>, d, [UpdateEstadoControl]) \<and>
         status (fst (control_actualizar sc' ev' d2 id2 b2)) \<in> {200, 400, 500}"
proof -
  have same: "update_estado_control c v t (int_col sc (JStr id_inv)) d = d" for v t
    by (simp add: update_estado_control_def update_no_match [OF none])
  have first: "control_actualizar sc ev d id_inv b =
           (\<lparr>status = (if throws ev UpdateEstadoControl = None then 200 else 500),
             body = Mensaje\<rparr>, d, [UpdateEstadoControl])"
    using Columna_truthy [OF col] given
    by (simp add: control_actualizar_def col same split: option.splits)
  have second: "status (fst (control_actualizar sc' ev' d2 id2 b2)) \<in> {200, 400, 500}"
    by (simp add: control_actualizar_def split: campo.splits option.splits)
  from first second show ?thesis by blast
qed

text \<open>Device 99 was never provisioned: the update is confirmed and nothing changes.\<close>

theorem control_actualizar_unknown_device_witness:
  "actuadorCampo (actuador body_riego) = Columna Riego_estado \<and>
   estado body_riego \<noteq> JUndefined \<and>
   \<not> (\<exists>e \<in> set (estado_control db_two).
      e_id_invernadero e = int_col sample_schema (JStr ''99'')) \<and>
   control_actualizar sample_schema env_later db_two ''99'' body_riego =
     (\<lparr>status = 200, body = Mensaje\<rparr>, db_two, [UpdateEstadoControl])"
proof -
  have col: "actuadorCampo (actuador body_riego) = Columna Riego_estado"
    by (simp add: body_riego_def)
  have given: "estado body_riego \<noteq> JUndefined"
    by (simp add: body_riego_def)
  have none: "\<forall>e \<in> set (estado_control db_two).
      e_id_invernadero e \<noteq> int_col sample_schema (JStr ''99'')"
    by (simp add: sample_schema_def sample_int_def sample_text_def db_two_def
          parseInt_def white_space_def radix_digit_def digit_value_def math_int_def)
  have ok: "throws env_later UpdateEstadoControl = None"
    by (simp add: env_later_def all_ok_def)
  from control_actualizar_unknown_device [OF col given none, of env_later] ok col given none
  show ?thesis by simp
qed

lemma filter_find_Nil: "filter P xs = [] \<longleftrightarrow> find P xs = None"
  by (induction xs) auto

lemma filter_find_Cons: "filter P xs = x # ys \<Longrightarrow> find P xs = Some x"
  by (induction xs) (auto split: if_splits)

text \<open>
  C5. When neither of the two selections throws, fetching the control state by token
  answers 401 when no device has the token; otherwise, for the first device that has it,
  404 when no control-state row belongs to that device, and else 200 with the three
  columns of its first such row read as booleans.
\<close>

theorem control_estado_outcomes:
  assumes "throws ev SelectInvernaderoByToken = None" and "throws ev SelectEstadoControl = None"
  shows
    "(find (\<lambda>r. token_dispositivo r = text_col sc (JStr tok)) (invernadero d) = None \<longrightarrow>
        control_estado sc ev d tok =
          (\<lparr>status = 401, body = Mensaje\<rparr>, d, [SelectInvernaderoByToken])) \<and>
     (\<forall>dev. find (\<lambda>r. token_dispositivo r = text_col sc (JStr tok)) (invernadero d) = Some dev \<longrightarrow>
        (find (\<lambda>e. e_id_invernadero e = i_id_invernadero dev) (estado_control d) = None \<longrightarrow>
           control_estado sc ev d tok =
             (\<lparr>status = 404, body = Mensaje\<rparr>, d,
              [SelectInvernaderoByToken, SelectEstadoControl])) \<and>
        (\<forall>e0. find (\<lambda>e. e_id_invernadero e = i_id_invernadero dev) (estado_control d) = Some e0 \<longrightarrow>
           control_estado sc ev d tok =
             (\<lparr>status = 200,
               body = Estado (luces_estado e0 \<noteq> 0) (riego_estado e0 \<noteq> 0)
                        (ventilacion_estado e0 \<noteq> 0)\<rparr>,
              d, [SelectInvernaderoByToken, SelectEstadoControl])))"
  using assms
  by (auto simp: control_estado_def select_invernadero_by_token_def select_estado_control_def
        filter_find_Nil split: list.splits dest!: filter_find_Cons)

text \<open>
  In the state with two devices: an unknown token, the token of the device without
  control state, and the token of the device whose irrigation is on.
\<close>

theorem control_estado_outcomes_witness:
  "throws env_ok SelectInvernaderoByToken = None \<and> throws env_ok SelectEstadoControl = None \<and>
   find (\<lambda>r. token_dispositivo r = text_col sample_schema (JStr ''NOPE'')) (invernadero db_two)
     = None \<and>
   control_estado sample_schema env_ok db_two ''NOPE'' =
     (\<lparr>status = 401, body = Mensaje\<rparr>, db_two, [SelectInvernaderoByToken]) \<and>
   control_estado sample_schema env_ok db_two ''XYZ'' =
     (\<lparr>status = 404, body = Mensaje\<rparr>, db_two,
      [SelectInvernaderoByToken, SelectEstadoControl]) \<and>
   control_estado sample_schema env_ok db_two ''ABC'' =
     (\<lparr>status = 200, body = Estado False True False\<rparr>, db_two,
      [SelectInvernaderoByToken, SelectEstadoControl])"
proof -
  have ok: "throws env_ok SelectInvernaderoByToken = None"
           "throws env_ok SelectEstadoControl = None"
    by (simp_all add: env_ok_def all_ok_def)
  have unknown: "find (\<lambda>r. token_dispositivo r = text_col sample_schema (JStr ''NOPE''))
      (invernadero db_two) = None"
    by (simp add: sample_schema_def sample_int_def sample_text_def db_two_def)
  have known2: "find (\<lambda>r. token_dispositivo r = text_col sample_schema (JStr ''XYZ''))
      (invernadero db_two) =
      Some \<lparr>i_id_invernadero = 2, nombre_ubicacion = ''Greenhouse B'',
            token_dispositivo = ''XYZ'', ultima_conexion = 310\<rparr>"
    by (simp add: sample_schema_def sample_int_def sample_text_def db_two_def)
  have no_state: "find (\<lambda>e. e_id_invernadero e = i_id_invernadero
      \<lparr>i_id_invernadero = 2, nombre_ubicacion = ''Greenhouse B'',
        token_dispositivo = ''XYZ'', ultima_conexion = 310\<rparr>) (estado_control db_two) = None"
    by (simp add: db_two_def)
  have known1: "find (\<lambda>r. token_dispositivo r = text_col sample_schema (JStr ''ABC''))
      (invernadero db_two) =
      Some \<lparr>i_id_invernadero = 1, nombre_ubicacion = ''Greenhouse A'',
            token_dispositivo = ''ABC'', ultima_conexion = 300\<rparr>"
    by (simp add: sample_schema_def sample_int_def sample_text_def db_two_def)
  have state1: "find (\<lambda>e. e_id_invernadero e = i_id_invernadero
      \<lparr>i_id_invernadero = 1, nombre_ubicacion = ''Greenhouse A'',
        token_dispositivo = ''ABC'', ultima_conexion = 300\<rparr>) (estado_control db_two) =
      Some \<lparr>e_id_invernadero = 1, luces_estado = 0, riego_estado = 1,
            ventilacion_estado = 0, ultima_actualizacion = Some 250\<rparr>"
    by (simp add: db_two_def)
  from control_estado_outcomes [OF ok, of sample_schema "''NOPE''" db_two] unknown
  have r401: "control_estado sample_schema env_ok db_two ''NOPE'' =
     (\<lparr>status = 401, body = Mensaje\<rparr>, db_two, [SelectInvernaderoByToken])"
    by blast
  from control_estado_outcomes [OF ok, of sample_schema "''XYZ''" db_two] known2 no_state
  have r404: "control_estado sample_schema env_ok db_two ''XYZ'' =
     (\<lparr>status = 404, body = Mensaje\<rparr>, db_two,
      [SelectInvernaderoByToken, SelectEstadoControl])"
    by blast
  from control_estado_outcomes [OF ok, of sample_schema "''ABC''" db_two] known1 state1
  have r200: "control_estado sample_schema env_ok db_two ''ABC'' =
     (\<lparr>status = 200, body = Estado False True False\<rparr>, db_two,
      [SelectInvernaderoByToken, SelectEstadoControl])"
    by fastforce
  from ok unknown r401 r404 r200 show ?thesis by blast
qed

section \<open>Listing the devices of a user\<close>

text \<open>
  C7. For a user id (a non-empty path parameter), when the selection does not throw, the
  answer is 200 with the devices the user has an ownership row for, in ascending order of
  device id; a user without any ownership row receives 200 with the empty list.
\<close>

theorem listar_ordered_by_id:
  assumes "uid \<noteq> []" and "throws ev SelectInvernaderosByUser = None"
  shows "listar sc ev d uid =
           (\<lparr>status = 200,
             body = Invernaderos (select_invernaderos_by_user (int_col sc (JStr uid)) d)\<rparr>,
            d, [SelectInvernaderosByUser]) \<and>
         sorted (map i_id_invernadero (select_invernaderos_by_user (int_col sc (JStr uid)) d)) \<and>
         set (select_invernaderos_by_user (int_col sc (JStr uid)) d) =
           {I \<in> set (invernadero d).
              \<exists>UI \<in> set (usuario_invernadero d).
                u_id_invernadero UI = i_id_invernadero I \<and>
                u_id_usuario UI = int_col sc (JStr uid)} \<and>
         ((\<forall>UI \<in> set (usuario_invernadero d). u_id_usuario UI \<noteq> int_col sc (JStr uid)) \<longrightarrow>
            select_invernaderos_by_user (int_col sc (JStr uid)) d = [])"
proof -
  have resp: "listar sc ev d uid =
           (\<lparr>status = 200,
             body = Invernaderos (select_invernaderos_by_user (int_col sc (JStr uid)) d)\<rparr>,
            d, [SelectInvernaderosByUser])"
    using assms by (simp add: listar_def)
  have ord: "sorted (map i_id_invernadero (select_invernaderos_by_user u d))" for u
    by (simp add: select_invernaderos_by_user_def)
  have mem: "set (select_invernaderos_by_user u d) =
           {I \<in> set (invernadero d).
              \<exists>UI \<in> set (usuario_invernadero d).
                u_id_invernadero UI = i_id_invernadero I \<and> u_id_usuario UI = u}" for u
    by (auto simp: select_invernaderos_by_user_def)
  have none: "select_invernaderos_by_user u d = []"
    if "\<forall>UI \<in> set (usuario_invernadero d). u_id_usuario UI \<noteq> u" for u
  proof -
    from that mem [of u] have "set (select_invernaderos_by_user u d) = {}" by auto
    then show ?thesis by simp
  qed
  from resp ord mem none show ?thesis by blast
qed

text \<open>
  User 7 owns devices 2 and 1, stored in that order: the list comes back as 1, 2. User 9
  owns nothing and receives 200 with the empty list.
\<close>

theorem listar_ordered_by_id_witness:
  "''7'' \<noteq> [] \<and> throws env_ok SelectInvernaderosByUser = None \<and>
   listar sample_schema env_ok db_two ''7'' =
     (\<lparr>status = 200,
       body = Invernaderos (select_invernaderos_by_user 7 db_two)\<rparr>,
      db_two, [SelectInvernaderosByUser]) \<and>
   select_invernaderos_by_user 7 db_two =
     [\<lparr>i_id_invernadero = 1, nombre_ubicacion = ''Greenhouse A'',
       token_dispositivo = ''ABC'', ultima_conexion = 300\<rparr>,
      \<lparr>i_id_invernadero = 2, nombre_ubicacion = ''Greenhouse B'',
       token_dispositivo = ''XYZ'', ultima_conexion = 310\<rparr>] \<and>
   sorted (map i_id_invernadero (select_invernaderos_by_user 7 db_two)) \<and>
   \<not> (\<exists>UI \<in> set (usuario_invernadero db_two). u_id_usuario UI = 9) \<and>
   listar sample_schema env_ok db_two ''9'' =
     (\<lparr>status = 200, body = Invernaderos []\<rparr>, db_two, [SelectInvernaderosByUser])"
proof -
  have h1: "''7'' \<noteq> []" and h1': "''9'' \<noteq> []" by simp_all
  have h2: "throws env_ok SelectInvernaderosByUser = None"
    by (simp add: env_ok_def all_ok_def)
  have u7: "int_col sample_schema (JStr ''7'') = 7"
    and u9: "int_col sample_schema (JStr ''9'') = 9"
    by (simp_all add: sample_schema_def sample_int_def sample_text_def
          parseInt_def white_space_def radix_digit_def digit_value_def math_int_def)
  have rows: "select_invernaderos_by_user 7 db_two =
     [\<lparr>i_id_invernadero = 1, nombre_ubicacion = ''Greenhouse A'',
       token_dispositivo = ''ABC'', ultima_conexion = 300\<rparr>,
      \<lparr>i_id_invernadero = 2, nombre_ubicacion = ''Greenhouse B'',
       token_dispositivo = ''XYZ'', ultima_conexion = 310\<rparr>]"
    by (simp add: select_invernaderos_by_user_def db_two_def)
  have nobody: "\<forall>UI \<in> set (usuario_invernadero db_two). u_id_usuario UI \<noteq> 9"
    by (simp add: db_two_def)
  from listar_ordered_by_id [OF h1 h2, of sample_schema db_two] u7
  have a: "listar sample_schema env_ok db_two ''7'' =
     (\<lparr>status = 200,
       body = Invernaderos (select_invernaderos_by_user 7 db_two)\<rparr>,
      db_two, [SelectInvernaderosByUser]) \<and>
     sorted (map i_id_invernadero (select_invernaderos_by_user 7 db_two))"
    by simp
  from listar_ordered_by_id [OF h1' h2, of sample_schema db_two] u9 nobody
  have b: "listar sample_schema env_ok db_two ''9'' =
     (\<lparr>status = 200, body = Invernaderos []\<rparr>, db_two, [SelectInvernaderosByUser])"
    by simp
  from h1 h2 rows nobody a b show ?thesis by blast
qed

section \<open>History\<close>






section \<open>Telemetry\<close>





end
